theory Spec2Isabelle
  imports Complex_Main
begin

section \<open>Exceptions\<close>

text \<open>The exceptions that the modelled functions can raise.\<close>

datatype error =
    TypeError
  | KeyError
  | IndexError
  | ZeroDivisionError
  | OverflowError
  | UnboundLocalError
  | ValueError

text \<open>A raised exception (\<open>Inl\<close>) ends the computation; a value (\<open>Inr\<close>) is handed on.\<close>

fun ebind :: "error + 'a \<Rightarrow> ('a \<Rightarrow> error + 'b) \<Rightarrow> error + 'b" where
  "ebind (Inl e) f = Inl e"
| "ebind (Inr x) f = f x"

section \<open>Numbers of the interpreter\<close>

text \<open>
  A number is an integer of any size or a float, and a float is an IEEE
  double: a finite value, an infinity or NaN. A finite double is kept as the
  rational it denotes. The two zeros are one value here: the program only
  compares numbers and divides, comparison does not tell the zeros apart, and
  division by either raises.
\<close>

datatype pyfloat = Fin rat | PInf | NInf | NaN

datatype pynum = PInt int | PFloat pyfloat

subsection \<open>Rounding to a double\<close>

definition pow2 :: "int \<Rightarrow> rat" where
  "pow2 k = (if 0 \<le> k then 2 ^ nat k else 1 / 2 ^ nat (- k))"

text \<open>The number of binary digits of a positive integer.\<close>

function bit_length :: "int \<Rightarrow> int" where
  "bit_length n = (if n \<le> 0 then 0 else 1 + bit_length (n div 2))"
  by pat_completeness auto
termination
  by (relation "measure nat") auto

declare bit_length.simps [simp del]

text \<open>For \<open>x > 0\<close> the integer \<open>k\<close> with \<open>2 ^ k \<le> x < 2 ^ (k + 1)\<close>.\<close>

definition ilog2 :: "rat \<Rightarrow> int" where
  "ilog2 x =
     (if 1 \<le> x then bit_length \<lfloor>x\<rfloor> - 1
      else - bit_length (\<lceil>1 / x\<rceil> - 1))"

definition round_half_even :: "rat \<Rightarrow> int" where
  "round_half_even x =
     (let f = \<lfloor>x\<rfloor>; d = x - of_int f
      in if d < 1 / 2 then f else if 1 / 2 < d then f + 1 else if even f then f else f + 1)"

text \<open>
  Round to nearest, ties to even: 53 significant bits, with the spacing
  \<open>2 ^ - 1074\<close> below \<open>2 ^ - 1022\<close>, and an infinity once the rounded value
  reaches \<open>2 ^ 1024\<close>.
\<close>

definition round_double :: "rat \<Rightarrow> pyfloat" where
  "round_double x =
     (if x = 0 then Fin 0
      else let e = max (ilog2 \<bar>x\<bar>) (- 1022);
               q = pow2 (e - 52);
               y = of_int (round_half_even (\<bar>x\<bar> / q)) * q
           in if pow2 1024 \<le> y then (if 0 < x then PInf else NInf)
              else Fin (if 0 < x then y else - y))"

subsection \<open>Arithmetic\<close>

text \<open>An integer operand of a mixed operation is converted first; an integer that
  rounds to an infinity cannot be converted.\<close>

definition float_of_int :: "int \<Rightarrow> error + pyfloat" where
  "float_of_int i =
     (case round_double (of_int i) of
        Fin r \<Rightarrow> Inr (Fin r)
      | PInf \<Rightarrow> Inl OverflowError
      | NInf \<Rightarrow> Inl OverflowError
      | NaN \<Rightarrow> Inl OverflowError)"

fun to_float :: "pynum \<Rightarrow> error + pyfloat" where
  "to_float (PInt i) = float_of_int i"
| "to_float (PFloat x) = Inr x"

fun fl_neg :: "pyfloat \<Rightarrow> pyfloat" where
  "fl_neg (Fin a) = Fin (- a)"
| "fl_neg PInf = NInf"
| "fl_neg NInf = PInf"
| "fl_neg NaN = NaN"

fun fl_add :: "pyfloat \<Rightarrow> pyfloat \<Rightarrow> pyfloat" where
  "fl_add (Fin a) (Fin b) = round_double (a + b)"
| "fl_add NaN y = NaN"
| "fl_add x NaN = NaN"
| "fl_add PInf NInf = NaN"
| "fl_add NInf PInf = NaN"
| "fl_add PInf y = PInf"
| "fl_add NInf y = NInf"
| "fl_add x PInf = PInf"
| "fl_add x NInf = NInf"

definition fl_sub :: "pyfloat \<Rightarrow> pyfloat \<Rightarrow> pyfloat" where
  "fl_sub x y = fl_add x (fl_neg y)"

text \<open>The sign of a product or quotient with an infinite operand.\<close>

fun fl_positive :: "pyfloat \<Rightarrow> bool" where
  "fl_positive (Fin a) = (0 < a)"
| "fl_positive PInf = True"
| "fl_positive NInf = False"
| "fl_positive NaN = False"

definition signed_inf :: "bool \<Rightarrow> pyfloat" where
  "signed_inf positive = (if positive then PInf else NInf)"

fun fl_mul :: "pyfloat \<Rightarrow> pyfloat \<Rightarrow> pyfloat" where
  "fl_mul (Fin a) (Fin b) = round_double (a * b)"
| "fl_mul NaN y = NaN"
| "fl_mul x NaN = NaN"
| "fl_mul (Fin a) y = (if a = 0 then NaN else signed_inf (fl_positive (Fin a) = fl_positive y))"
| "fl_mul x (Fin b) = (if b = 0 then NaN else signed_inf (fl_positive x = fl_positive (Fin b)))"
| "fl_mul x y = signed_inf (fl_positive x = fl_positive y)"

text \<open>The quotient by a divisor that is not zero.\<close>

fun fl_div :: "pyfloat \<Rightarrow> pyfloat \<Rightarrow> pyfloat" where
  "fl_div (Fin a) (Fin b) = round_double (a / b)"
| "fl_div NaN y = NaN"
| "fl_div x NaN = NaN"
| "fl_div (Fin a) y = Fin 0"
| "fl_div x (Fin b) = signed_inf (fl_positive x = fl_positive (Fin b))"
| "fl_div x y = NaN"

text \<open>
  \<^verbatim>\<open>a + b\<close>, \<^verbatim>\<open>a - b\<close>, \<^verbatim>\<open>a * b\<close>: exact on two integers, otherwise the operation
  on doubles, which does not raise when it overflows.
\<close>

fun py_add :: "pynum \<Rightarrow> pynum \<Rightarrow> error + pynum" where
  "py_add (PInt i) (PInt j) = Inr (PInt (i + j))"
| "py_add a b =
     ebind (to_float a) (\<lambda>x. ebind (to_float b) (\<lambda>y. Inr (PFloat (fl_add x y))))"

fun py_sub :: "pynum \<Rightarrow> pynum \<Rightarrow> error + pynum" where
  "py_sub (PInt i) (PInt j) = Inr (PInt (i - j))"
| "py_sub a b =
     ebind (to_float a) (\<lambda>x. ebind (to_float b) (\<lambda>y. Inr (PFloat (fl_sub x y))))"

fun py_mul :: "pynum \<Rightarrow> pynum \<Rightarrow> error + pynum" where
  "py_mul (PInt i) (PInt j) = Inr (PInt (i * j))"
| "py_mul a b =
     ebind (to_float a) (\<lambda>x. ebind (to_float b) (\<lambda>y. Inr (PFloat (fl_mul x y))))"

text \<open>
  \<^verbatim>\<open>a / b\<close>: always a float. The quotient of two integers is rounded once and
  raises when it is too large; otherwise both operands are doubles, and a
  divisor equal to zero raises.
\<close>

fun py_truediv :: "pynum \<Rightarrow> pynum \<Rightarrow> error + pynum" where
  "py_truediv (PInt i) (PInt j) =
     (if j = 0 then Inl ZeroDivisionError
      else (case round_double (of_int i / of_int j) of
              Fin r \<Rightarrow> Inr (PFloat (Fin r))
            | PInf \<Rightarrow> Inl OverflowError
            | NInf \<Rightarrow> Inl OverflowError
            | NaN \<Rightarrow> Inl OverflowError))"
| "py_truediv a b =
     ebind (to_float a) (\<lambda>x. ebind (to_float b) (\<lambda>y.
     if y = Fin 0 then Inl ZeroDivisionError else Inr (PFloat (fl_div x y))))"

subsection \<open>Comparison\<close>

text \<open>
  Numbers are compared by their exact values, also an integer with a float;
  every ordering and equality test with NaN is false.
\<close>

fun exact :: "pynum \<Rightarrow> pyfloat" where
  "exact (PInt i) = Fin (of_int i)"
| "exact (PFloat x) = x"

fun fl_lt :: "pyfloat \<Rightarrow> pyfloat \<Rightarrow> bool" where
  "fl_lt (Fin a) (Fin b) = (a < b)"
| "fl_lt (Fin a) PInf = True"
| "fl_lt NInf (Fin b) = True"
| "fl_lt NInf PInf = True"
| "fl_lt x y = False"

fun fl_eq :: "pyfloat \<Rightarrow> pyfloat \<Rightarrow> bool" where
  "fl_eq (Fin a) (Fin b) = (a = b)"
| "fl_eq PInf PInf = True"
| "fl_eq NInf NInf = True"
| "fl_eq x y = False"

definition py_lt :: "pynum \<Rightarrow> pynum \<Rightarrow> bool" where
  "py_lt a b = fl_lt (exact a) (exact b)"

definition py_gt :: "pynum \<Rightarrow> pynum \<Rightarrow> bool" where
  "py_gt a b = fl_lt (exact b) (exact a)"

definition py_eq :: "pynum \<Rightarrow> pynum \<Rightarrow> bool" where
  "py_eq a b = fl_eq (exact a) (exact b)"

definition py_ne :: "pynum \<Rightarrow> pynum \<Rightarrow> bool" where
  "py_ne a b = (\<not> py_eq a b)"

definition py_le :: "pynum \<Rightarrow> pynum \<Rightarrow> bool" where
  "py_le a b = (py_lt a b \<or> py_eq a b)"

text \<open>\<^verbatim>\<open>min(a, b)\<close> and \<^verbatim>\<open>max(a, b)\<close> keep the first argument unless the second is
  strictly smaller, or strictly larger.\<close>

definition py_min :: "pynum \<Rightarrow> pynum \<Rightarrow> pynum" where
  "py_min a b = (if py_lt b a then b else a)"

definition py_max :: "pynum \<Rightarrow> pynum \<Rightarrow> pynum" where
  "py_max a b = (if py_gt b a then b else a)"

section \<open>Values exchanged with the detection service\<close>

text \<open>
  \<^verbatim>\<open>hf_detect_objects\<close> hands back whatever \<^verbatim>\<open>response.json()\<close> decoded, so a
  detection is an arbitrary decoded JSON value and not yet a record. A number
  without fraction or exponent decodes to an integer, any other to a float. A
  decoded object is a dict; it is kept as the list of its items, with distinct
  keys, and read with \<open>map_of\<close>.
\<close>

datatype json =
    JNull
  | JBool bool
  | JInt int
  | JFloat pyfloat
  | JStr string
  | JList "json list"
  | JObj "(string \<times> json) list"

text \<open>The values arithmetic and ordering accept: numbers, and booleans as 1 and 0.\<close>

fun py_number :: "json \<Rightarrow> pynum option" where
  "py_number (JInt i) = Some (PInt i)"
| "py_number (JFloat x) = Some (PFloat x)"
| "py_number (JBool b) = Some (PInt (if b then 1 else 0))"
| "py_number JNull = None"
| "py_number (JStr s) = None"
| "py_number (JList xs) = None"
| "py_number (JObj kvs) = None"

text \<open>\<^verbatim>\<open>d[key]\<close> with a string key: a dict without the key raises KeyError, and no
  other JSON value can be subscripted with a string.\<close>

fun py_getitem :: "json \<Rightarrow> string \<Rightarrow> error + json" where
  "py_getitem (JObj kvs) k = (case map_of kvs k of None \<Rightarrow> Inl KeyError | Some v \<Rightarrow> Inr v)"
| "py_getitem JNull k = Inl TypeError"
| "py_getitem (JBool b) k = Inl TypeError"
| "py_getitem (JInt i) k = Inl TypeError"
| "py_getitem (JFloat x) k = Inl TypeError"
| "py_getitem (JStr s) k = Inl TypeError"
| "py_getitem (JList xs) k = Inl TypeError"

text \<open>\<^verbatim>\<open>xs[j]\<close> with a non-negative index.\<close>

definition py_index :: "'a list \<Rightarrow> nat \<Rightarrow> error + 'a" where
  "py_index xs j = (if j < length xs then Inr (xs ! j) else Inl IndexError)"

text \<open>\<^verbatim>\<open>i % n\<close> on non-negative integers.\<close>

definition py_mod :: "nat \<Rightarrow> nat \<Rightarrow> error + nat" where
  "py_mod i n = (if n = 0 then Inl ZeroDivisionError else Inr (i mod n))"

type_synonym point = "pynum \<times> pynum"
type_synonym polygon = "point list"

section \<open>Detection filter\<close>

text \<open>
  \<^verbatim>\<open>
  vehicle_labels = {"car", "truck", "bus", "motorcycle"}
  detected_vehicles = [
      obj for obj in all_detected_objects
      if isinstance(obj, dict) and obj.get("label") in vehicle_labels
         and obj.get("score", 0) > 0.7
  ]
  \<close>
\<close>

definition vehicle_labels :: "string set" where
  "vehicle_labels = {''car'', ''truck'', ''bus'', ''motorcycle''}"

text \<open>
  \<^verbatim>\<open>obj.get("label") in vehicle_labels\<close>: membership in a set hashes the value,
  which raises for a list or a dict; every other value is hashable and only a
  string can be equal to a member.
\<close>

fun label_in_vehicle_labels :: "json option \<Rightarrow> error + bool" where
  "label_in_vehicle_labels None = Inr False"
| "label_in_vehicle_labels (Some (JStr s)) = Inr (s \<in> vehicle_labels)"
| "label_in_vehicle_labels (Some (JList xs)) = Inl TypeError"
| "label_in_vehicle_labels (Some (JObj kvs)) = Inl TypeError"
| "label_in_vehicle_labels (Some JNull) = Inr False"
| "label_in_vehicle_labels (Some (JBool b)) = Inr False"
| "label_in_vehicle_labels (Some (JInt i)) = Inr False"
| "label_in_vehicle_labels (Some (JFloat x)) = Inr False"

text \<open>The literal \<^verbatim>\<open>0.7\<close> is the double nearest to seven tenths.\<close>

definition threshold :: pyfloat where
  "threshold = round_double (7 / 10)"

text \<open>\<^verbatim>\<open>v > 0.7\<close>: ordering anything but a number against a float raises.\<close>

definition score_above_threshold :: "json \<Rightarrow> error + bool" where
  "score_above_threshold v =
     (case py_number v of
        None \<Rightarrow> Inl TypeError
      | Some x \<Rightarrow> Inr (py_gt x (PFloat threshold)))"

text \<open>\<^verbatim>\<open>obj.get("score", 0)\<close>\<close>

definition get_score :: "(string \<times> json) list \<Rightarrow> json" where
  "get_score kvs = (case map_of kvs ''score'' of None \<Rightarrow> JInt 0 | Some v \<Rightarrow> v)"

text \<open>The condition of the comprehension; \<^verbatim>\<open>and\<close> evaluates left to right and stops
  at the first false operand.\<close>

fun keep_vehicle :: "json \<Rightarrow> error + bool" where
  "keep_vehicle (JObj kvs) =
     (case label_in_vehicle_labels (map_of kvs ''label'') of
        Inl e \<Rightarrow> Inl e
      | Inr False \<Rightarrow> Inr False
      | Inr True \<Rightarrow> score_above_threshold (get_score kvs))"
| "keep_vehicle JNull = Inr False"
| "keep_vehicle (JBool b) = Inr False"
| "keep_vehicle (JInt i) = Inr False"
| "keep_vehicle (JFloat x) = Inr False"
| "keep_vehicle (JStr s) = Inr False"
| "keep_vehicle (JList xs) = Inr False"

fun detected_vehicles :: "json list \<Rightarrow> error + json list" where
  "detected_vehicles [] = Inr []"
| "detected_vehicles (obj # rest) =
     (case keep_vehicle obj of
        Inl e \<Rightarrow> Inl e
      | Inr b \<Rightarrow>
          (case detected_vehicles rest of
             Inl e \<Rightarrow> Inl e
           | Inr vs \<Rightarrow> Inr (if b then obj # vs else vs)))"

section \<open>Geometry engine\<close>

text \<open>
  \<^verbatim>\<open>
  def check_overlap(box, polygon):
      box_center_x = (box['xmin'] + box['xmax']) / 2
      box_center_y = (box['ymin'] + box['ymax']) / 2
      num_vertices = len(polygon)
      is_inside = False
      p1x, p1y = polygon[0]
      for i in range(num_vertices + 1):
          p2x, p2y = polygon[i % num_vertices]
          if box_center_y > min(p1y, p2y) and box_center_y <= max(p1y, p2y) \
                  and box_center_x <= max(p1x, p2x):
              if p1y != p2y:
                  x_intersection = (box_center_y - p1y) * (p2x - p1x) / (p2y - p1y) + p1x
              if p1x == p2x or box_center_x <= x_intersection:
                  is_inside = not is_inside
          p1x, p1y = p2x, p2y
      return is_inside
  \<close>
\<close>

text \<open>\<^verbatim>\<open>(a + b) / 2\<close>: the sum of two strings or two lists exists but cannot be
  divided, and every other non-numeric pairing already fails at the sum.\<close>

definition midpoint :: "json \<Rightarrow> json \<Rightarrow> error + pynum" where
  "midpoint a b =
     (case (py_number a, py_number b) of
        (Some x, Some y) \<Rightarrow> ebind (py_add x y) (\<lambda>s. py_truediv s (PInt 2))
      | _ \<Rightarrow> Inl TypeError)"

definition box_center :: "json \<Rightarrow> error + point" where
  "box_center box =
     ebind (py_getitem box ''xmin'') (\<lambda>xmin.
     ebind (py_getitem box ''xmax'') (\<lambda>xmax.
     ebind (midpoint xmin xmax) (\<lambda>cx.
     ebind (py_getitem box ''ymin'') (\<lambda>ymin.
     ebind (py_getitem box ''ymax'') (\<lambda>ymax.
     ebind (midpoint ymin ymax) (\<lambda>cy.
     Inr (cx, cy)))))))"

text \<open>The local variables the loop changes. \<open>x_intersection\<close> is unbound until its first
  assignment and keeps its value from one iteration to the next.\<close>

record overlap_state =
  p1x :: pynum
  p1y :: pynum
  is_inside :: bool
  x_intersection :: "pynum option"

definition in_y_range :: "pynum \<Rightarrow> pynum \<Rightarrow> overlap_state \<Rightarrow> point \<Rightarrow> bool" where
  "in_y_range cx cy s p2 =
     (py_gt cy (py_min (p1y s) (snd p2)) \<and> py_le cy (py_max (p1y s) (snd p2)) \<and>
      py_le cx (py_max (p1x s) (fst p2)))"

text \<open>The right-hand side of the assignment, operation by operation in the order of
  evaluation, for the edge from \<open>(ax, ay)\<close> to \<open>(bx, by)\<close>.\<close>

definition x_intersection_value :: "pynum \<Rightarrow> point \<Rightarrow> point \<Rightarrow> error + pynum" where
  "x_intersection_value cy a b =
     ebind (py_sub cy (snd a)) (\<lambda>t1.
     ebind (py_sub (fst b) (fst a)) (\<lambda>t2.
     ebind (py_mul t1 t2) (\<lambda>t3.
     ebind (py_sub (snd b) (snd a)) (\<lambda>t4.
     ebind (py_truediv t3 t4) (\<lambda>t5.
     py_add t5 (fst a))))))"

definition assign_x_intersection :: "pynum \<Rightarrow> overlap_state \<Rightarrow> point \<Rightarrow> error + overlap_state" where
  "assign_x_intersection cy s p2 =
     (if py_ne (p1y s) (snd p2)
      then ebind (x_intersection_value cy (p1x s, p1y s) p2) (\<lambda>v.
           Inr (s\<lparr>x_intersection := Some v\<rparr>))
      else Inr s)"

definition x_test :: "pynum \<Rightarrow> overlap_state \<Rightarrow> point \<Rightarrow> error + bool" where
  "x_test cx s p2 =
     (if py_eq (p1x s) (fst p2) then Inr True
      else (case x_intersection s of
              None \<Rightarrow> Inl UnboundLocalError
            | Some xi \<Rightarrow> Inr (py_le cx xi)))"

text \<open>One iteration, from the current state and the vertex \<open>p2\<close> it reads.\<close>

definition edge_step :: "pynum \<Rightarrow> pynum \<Rightarrow> overlap_state \<Rightarrow> point \<Rightarrow> error + overlap_state" where
  "edge_step cx cy s p2 =
     ebind (if in_y_range cx cy s p2
            then ebind (assign_x_intersection cy s p2) (\<lambda>s1.
                 ebind (x_test cx s1 p2) (\<lambda>t.
                 Inr (if t then s1\<lparr>is_inside := \<not> is_inside s1\<rparr> else s1)))
            else Inr s) (\<lambda>s2.
     Inr (s2\<lparr>p1x := fst p2, p1y := snd p2\<rparr>))"

definition loop_body ::
  "pynum \<Rightarrow> pynum \<Rightarrow> polygon \<Rightarrow> nat \<Rightarrow> overlap_state \<Rightarrow> error + overlap_state" where
  "loop_body cx cy polygon i s =
     ebind (py_mod i (length polygon)) (\<lambda>j.
     ebind (py_index polygon j) (\<lambda>p2.
     edge_step cx cy s p2))"

fun overlap_loop ::
  "pynum \<Rightarrow> pynum \<Rightarrow> polygon \<Rightarrow> nat list \<Rightarrow> overlap_state \<Rightarrow> error + overlap_state" where
  "overlap_loop cx cy polygon [] s = Inr s"
| "overlap_loop cx cy polygon (i # is) s =
     ebind (loop_body cx cy polygon i s) (\<lambda>s'. overlap_loop cx cy polygon is s')"

text \<open>The part of \<^verbatim>\<open>check_overlap\<close> after the box center is known.\<close>

definition point_in_polygon :: "pynum \<Rightarrow> pynum \<Rightarrow> polygon \<Rightarrow> error + bool" where
  "point_in_polygon cx cy polygon =
     ebind (py_index polygon 0) (\<lambda>p.
     ebind (overlap_loop cx cy polygon [0 ..< length polygon + 1]
              \<lparr>p1x = fst p, p1y = snd p, is_inside = False, x_intersection = None\<rparr>) (\<lambda>s.
     Inr (is_inside s)))"

definition check_overlap :: "json \<Rightarrow> polygon \<Rightarrow> error + bool" where
  "check_overlap box polygon =
     ebind (box_center box) (\<lambda>c. point_in_polygon (fst c) (snd c) polygon)"

section \<open>Occupancy resolver\<close>

text \<open>
  \<^verbatim>\<open>
  def detect_occupancy(image_path, polygons):
      img = Image.open(image_path)
      all_detected_objects = hf_detect_objects(img)
      ... detected_vehicles ...
      if not detected_vehicles:
          return [False] * len(polygons)
      occupied_status = []
      for polygon in polygons:
          is_occupied = any(check_overlap(vehicle['box'], polygon) for vehicle in detected_vehicles)
          occupied_status.append(is_occupied)
      return occupied_status
  \<close>
\<close>

text \<open>
  \<^verbatim>\<open>for obj in all_detected_objects\<close>: the decoded response need not be a list.
  A dict yields its keys and a string its characters; the other values cannot
  be iterated.
\<close>

fun py_iter :: "json \<Rightarrow> error + json list" where
  "py_iter (JList xs) = Inr xs"
| "py_iter (JObj kvs) = Inr (map (\<lambda>kv. JStr (fst kv)) kvs)"
| "py_iter (JStr s) = Inr (map (\<lambda>c. JStr [c]) s)"
| "py_iter JNull = Inl TypeError"
| "py_iter (JBool b) = Inl TypeError"
| "py_iter (JInt i) = Inl TypeError"
| "py_iter (JFloat x) = Inl TypeError"

text \<open>\<^verbatim>\<open>any\<close> consumes the generator up to the first true element, so a later
  vehicle is not looked at once an earlier one overlaps.\<close>

fun any_overlap :: "json list \<Rightarrow> polygon \<Rightarrow> error + bool" where
  "any_overlap [] polygon = Inr False"
| "any_overlap (vehicle # rest) polygon =
     ebind (py_getitem vehicle ''box'') (\<lambda>box.
     ebind (check_overlap box polygon) (\<lambda>b.
     if b then Inr True else any_overlap rest polygon))"

fun occupied_status :: "json list \<Rightarrow> polygon list \<Rightarrow> error + bool list" where
  "occupied_status vehicles [] = Inr []"
| "occupied_status vehicles (polygon # rest) =
     ebind (any_overlap vehicles polygon) (\<lambda>is_occupied.
     ebind (occupied_status vehicles rest) (\<lambda>bs.
     Inr (is_occupied # bs)))"

text \<open>The part of \<^verbatim>\<open>detect_occupancy\<close> after the detection service has answered.\<close>

definition occupancy_of :: "json \<Rightarrow> polygon list \<Rightarrow> error + bool list" where
  "occupancy_of all_detected_objects polygons =
     ebind (py_iter all_detected_objects) (\<lambda>objs.
     ebind (detected_vehicles objs) (\<lambda>vehicles.
     if vehicles = [] then Inr (replicate (length polygons) False)
     else occupied_status vehicles polygons))"

text \<open>
  Opening the snapshot and asking the detection service is the parameter
  \<open>hf_detect_objects\<close>: it gives the decoded response for a snapshot, or raises.
\<close>

definition detect_occupancy ::
  "('img \<Rightarrow> error + json) \<Rightarrow> 'img \<Rightarrow> polygon list \<Rightarrow> error + bool list" where
  "detect_occupancy hf_detect_objects image_path polygons =
     ebind (hf_detect_objects image_path) (\<lambda>all_detected_objects.
     occupancy_of all_detected_objects polygons)"

section \<open>Image source\<close>

text \<open>
  \<^verbatim>\<open>
  def fetch_cam_image(cam_num):
      url = BASE_URL.format(cam_num)
      try:
          response = requests.get(url, headers=HEADERS, timeout=10)
          response.raise_for_status()
      except requests.exceptions.RequestException as e:
          st.warning(...)
          return None
      soup = BeautifulSoup(response.text, "html.parser")
      img_tag = soup.find("img")
      if img_tag and 'src' in img_tag.attrs and img_tag['src'].startswith("data:image"):
          base64_data = img_tag['src'].split(",")[1]
          image_data = base64.b64decode(base64_data)
          img = Image.open(BytesIO(image_data))
          path = os.path.join(IMAGES_DIR, f"cam{cam_num}_snapshot.png")
          img.save(path, "PNG")
          return path
      return None
  \<close>
\<close>

text \<open>
  What the request and the parser give for a camera: the request raised a
  \<^verbatim>\<open>RequestException\<close>, or the page was read and its first \<^verbatim>\<open>img\<close> tag, when
  there is one, has these attributes.
\<close>

datatype response = RequestFailed | Page "(string \<times> string) list option"

text \<open>\<^verbatim>\<open>text.split(",")\<close>: the pieces between the commas, at least one.\<close>

fun split_comma :: "string \<Rightarrow> string list" where
  "split_comma [] = [[]]"
| "split_comma (c # cs) =
     (if c = CHR '','' then [] # split_comma cs
      else (case split_comma cs of
              [] \<Rightarrow> [[c]]
            | p # ps \<Rightarrow> (c # p) # ps))"

text \<open>
  The parameter \<open>requests_get\<close> is the request with the parse of the page. The
  parameter \<open>save_snapshot\<close> is the rest of the branch after the split: decoding
  the base64 text, opening the image and saving it; it gives the path of the
  snapshot or raises.
\<close>

definition fetch_cam_image ::
  "(int \<Rightarrow> response) \<Rightarrow> (int \<Rightarrow> string \<Rightarrow> error + 'img) \<Rightarrow> int \<Rightarrow> error + 'img option" where
  "fetch_cam_image requests_get save_snapshot cam_num =
     (case requests_get cam_num of
        RequestFailed \<Rightarrow> Inr None
      | Page None \<Rightarrow> Inr None
      | Page (Some attrs) \<Rightarrow>
          (case map_of attrs ''src'' of
             None \<Rightarrow> Inr None
           | Some src \<Rightarrow>
               if take 10 src = ''data:image''
               then ebind (py_index (split_comma src) 1) (\<lambda>base64_data.
                    ebind (save_snapshot cam_num base64_data) (\<lambda>path.
                    Inr (Some path)))
               else Inr None))"

section \<open>Status aggregator\<close>

text \<open>
  \<^verbatim>\<open>
  def run_status_check(spots_data):
      status = {}
      for cam_str, data in spots_data.items():
          cam_num = int(cam_str.replace("cam", ""))
          polygons = data.get("polygons", [])
          if not polygons:
              status[cam_str] = []
              continue
          cam_img_path = fetch_cam_image(cam_num)
          if cam_img_path:
              status[cam_str] = detect_occupancy(cam_img_path, polygons)
          else:
              status[cam_str] = [False] * len(polygons)
      return status
  \<close>
\<close>

text \<open>One entry of the configuration document; a key that is absent is \<open>None\<close>.\<close>

record camera_config =
  polygons :: "polygon list option"
  map_spots :: "point list option"

text \<open>\<^verbatim>\<open>data.get("polygons", [])\<close>\<close>

definition get_polygons :: "camera_config \<Rightarrow> polygon list" where
  "get_polygons data = (case polygons data of None \<Rightarrow> [] | Some ps \<Rightarrow> ps)"

text \<open>\<^verbatim>\<open>cam_str.replace("cam", "")\<close>: occurrences are removed from left to right
  without overlap.\<close>

fun remove_cam :: "string \<Rightarrow> string" where
  "remove_cam (a # b # c # rest) =
     (if [a, b, c] = ''cam'' then remove_cam rest else a # remove_cam (b # c # rest))"
| "remove_cam s = s"

text \<open>
  \<^verbatim>\<open>int(text)\<close> on ASCII text: the whitespace characters tab, line feed,
  vertical tab, form feed, carriage return and space are skipped at both ends,
  one sign may lead, and the rest must be decimal digits, where single
  underscores may separate digits. Everything else raises ValueError. Digits
  outside ASCII and the interpreter's bound on the length of a literal are left
  out.
\<close>

definition py_isspace :: "char \<Rightarrow> bool" where
  "py_isspace c = (c \<in> set [CHR 0x09, CHR 0x0A, CHR 0x0B, CHR 0x0C, CHR 0x0D, CHR 0x20])"

definition py_strip :: "string \<Rightarrow> string" where
  "py_strip s = rev (dropWhile py_isspace (rev (dropWhile py_isspace s)))"

definition digit_value :: "char \<Rightarrow> nat option" where
  "digit_value c =
     (let n = (of_char c :: nat) in if 48 \<le> n \<and> n \<le> 57 then Some (n - 48) else None)"

fun digits_value :: "nat \<Rightarrow> string \<Rightarrow> nat option" where
  "digits_value acc [] = Some acc"
| "digits_value acc [c] =
     (case digit_value c of None \<Rightarrow> None | Some v \<Rightarrow> Some (10 * acc + v))"
| "digits_value acc (c # d # ds) =
     (if c = CHR ''_''
      then (case digit_value d of None \<Rightarrow> None | Some v \<Rightarrow> digits_value (10 * acc + v) ds)
      else (case digit_value c of None \<Rightarrow> None | Some v \<Rightarrow> digits_value (10 * acc + v) (d # ds)))"

definition split_sign :: "string \<Rightarrow> bool \<times> string" where
  "split_sign t =
     (case t of
        [] \<Rightarrow> (False, t)
      | c # r \<Rightarrow> if c = CHR ''-'' then (True, r) else if c = CHR ''+'' then (False, r) else (False, t))"

definition py_int :: "string \<Rightarrow> error + int" where
  "py_int s =
     (case split_sign (py_strip s) of
        (neg, body) \<Rightarrow>
          (case body of
             [] \<Rightarrow> Inl ValueError
           | c # cs \<Rightarrow>
               (case digit_value c of
                  None \<Rightarrow> Inl ValueError
                | Some v \<Rightarrow>
                    (case digits_value v cs of
                       None \<Rightarrow> Inl ValueError
                     | Some n \<Rightarrow> Inr (if neg then - int n else int n)))))"

definition cam_num_of :: "string \<Rightarrow> error + int" where
  "cam_num_of cam_str = py_int (remove_cam cam_str)"

text \<open>The body of the loop for one camera.\<close>

definition camera_status ::
  "(int \<Rightarrow> response) \<Rightarrow> (int \<Rightarrow> string \<Rightarrow> error + 'img) \<Rightarrow> ('img \<Rightarrow> error + json) \<Rightarrow>
     string \<Rightarrow> camera_config \<Rightarrow> error + bool list" where
  "camera_status requests_get save_snapshot hf_detect_objects cam_str data =
     ebind (cam_num_of cam_str) (\<lambda>cam_num.
     if get_polygons data = [] then Inr []
     else ebind (fetch_cam_image requests_get save_snapshot cam_num) (\<lambda>cam_img_path.
          case cam_img_path of
            Some path \<Rightarrow> detect_occupancy hf_detect_objects path (get_polygons data)
          | None \<Rightarrow> Inr (replicate (length (get_polygons data)) False)))"

type_synonym status = "string \<rightharpoonup> bool list"

fun status_loop ::
  "(int \<Rightarrow> response) \<Rightarrow> (int \<Rightarrow> string \<Rightarrow> error + 'img) \<Rightarrow> ('img \<Rightarrow> error + json) \<Rightarrow>
     (string \<times> camera_config) list \<Rightarrow> status \<Rightarrow> error + status" where
  "status_loop requests_get save_snapshot hf_detect_objects [] status = Inr status"
| "status_loop requests_get save_snapshot hf_detect_objects ((cam_str, data) # rest) status =
     ebind (camera_status requests_get save_snapshot hf_detect_objects cam_str data) (\<lambda>v.
     status_loop requests_get save_snapshot hf_detect_objects rest (status(cam_str \<mapsto> v)))"

text \<open>The configuration is the list of the dict's items in iteration order.\<close>

definition run_status_check ::
  "(int \<Rightarrow> response) \<Rightarrow> (int \<Rightarrow> string \<Rightarrow> error + 'img) \<Rightarrow> ('img \<Rightarrow> error + json) \<Rightarrow>
     (string \<times> camera_config) list \<Rightarrow> error + status" where
  "run_status_check requests_get save_snapshot hf_detect_objects spots_data =
     status_loop requests_get save_snapshot hf_detect_objects spots_data Map.empty"

section \<open>Reference notions the code is compared with\<close>

text \<open>
  The crossing test of one directed edge from \<open>a\<close> to \<open>b\<close> for the ray from
  \<open>(x, y)\<close>: the half-open range of the edge's y-coordinates and the bound by
  the larger x-coordinate; then, with the x-intersection computed as the code
  computes it, either a vertical edge or a point not to the right of the
  intersection. The arithmetic can raise.
\<close>

definition edge_in_range :: "pynum \<Rightarrow> pynum \<Rightarrow> point \<Rightarrow> point \<Rightarrow> bool" where
  "edge_in_range x y a b =
     (py_gt y (py_min (snd a) (snd b)) \<and> py_le y (py_max (snd a) (snd b)) \<and>
      py_le x (py_max (fst a) (fst b)))"

definition edge_crosses :: "pynum \<Rightarrow> pynum \<Rightarrow> point \<Rightarrow> point \<Rightarrow> error + bool" where
  "edge_crosses x y a b =
     (if edge_in_range x y a b
      then ebind (x_intersection_value y a b) (\<lambda>xi. Inr (py_eq (fst a) (fst b) \<or> py_le x xi))
      else Inr False)"

text \<open>The edges of a closed polygon: vertex \<open>i\<close> to vertex \<open>(i + 1) mod n\<close>.\<close>

definition polygon_edges :: "polygon \<Rightarrow> (point \<times> point) list" where
  "polygon_edges polygon =
     map (\<lambda>i. (polygon ! i, polygon ! (Suc i mod length polygon))) [0 ..< length polygon]"

text \<open>Ray casting as a fold over the edges in their order: each crossing flips the
  flag, and the first edge whose arithmetic raises ends the fold.\<close>

fun cast_edges :: "pynum \<Rightarrow> pynum \<Rightarrow> (point \<times> point) list \<Rightarrow> bool \<Rightarrow> error + bool" where
  "cast_edges x y [] inside = Inr inside"
| "cast_edges x y (e # es) inside =
     ebind (edge_crosses x y (fst e) (snd e)) (\<lambda>c. cast_edges x y es (inside \<noteq> c))"

definition ray_cast :: "pynum \<Rightarrow> pynum \<Rightarrow> polygon \<Rightarrow> error + bool" where
  "ray_cast x y polygon = cast_edges x y (polygon_edges polygon) False"

text \<open>
  A detection record of the data model: a string label, a numeric score and a
  bounding box with the four numeric fields.
\<close>

definition number_field :: "(string \<times> json) list \<Rightarrow> string \<Rightarrow> pynum option" where
  "number_field b k = (case map_of b k of None \<Rightarrow> None | Some v \<Rightarrow> py_number v)"

definition wf_box :: "json \<Rightarrow> bool" where
  "wf_box box =
     (case box of
        JObj b \<Rightarrow>
          number_field b ''xmin'' \<noteq> None \<and> number_field b ''ymin'' \<noteq> None \<and>
          number_field b ''xmax'' \<noteq> None \<and> number_field b ''ymax'' \<noteq> None
      | _ \<Rightarrow> False)"

definition wf_detection :: "json \<Rightarrow> bool" where
  "wf_detection v =
     (case v of
        JObj kvs \<Rightarrow>
          (case (map_of kvs ''label'', map_of kvs ''score'', map_of kvs ''box'') of
             (Some (JStr l), Some sc, Some box) \<Rightarrow> py_number sc \<noteq> None \<and> wf_box box
           | _ \<Rightarrow> False)
      | _ \<Rightarrow> False)"

text \<open>The record the detection service sends for one detection.\<close>

definition detection :: "string \<Rightarrow> pyfloat \<Rightarrow> int \<times> int \<times> int \<times> int \<Rightarrow> json" where
  "detection l sc b =
     (case b of (xmin, ymin, xmax, ymax) \<Rightarrow>
        JObj [(''score'', JFloat sc), (''label'', JStr l),
              (''box'', JObj [(''xmin'', JInt xmin), (''ymin'', JInt ymin),
                              (''xmax'', JInt xmax), (''ymax'', JInt ymax)])])"

section \<open>Collaborators and inputs of the examples\<close>

text \<open>An image source that cannot be reached, and one whose page carries one
  \<^verbatim>\<open>img\<close> tag with the given \<^verbatim>\<open>src\<close>.\<close>

definition unreachable :: "int \<Rightarrow> response" where
  "unreachable cam_num = RequestFailed"

definition page_with_src :: "string \<Rightarrow> int \<Rightarrow> response" where
  "page_with_src src cam_num = Page (Some [(''src'', src)])"

text \<open>Decoding and saving that succeeds, and decoding that raises (the decoder's
  error is a \<^verbatim>\<open>ValueError\<close>).\<close>

definition saved :: "int \<Rightarrow> string \<Rightarrow> error + string" where
  "saved cam_num base64_data = Inr ''images/snapshot.png''"

definition undecodable :: "int \<Rightarrow> string \<Rightarrow> error + string" where
  "undecodable cam_num base64_data = Inl ValueError"

text \<open>A detection service that answers every snapshot with the same response.\<close>

definition answers :: "json \<Rightarrow> string \<Rightarrow> error + json" where
  "answers all_detected_objects path = Inr all_detected_objects"

text \<open>An axis-aligned square spot of side 4 with integer pixel coordinates.\<close>

definition square_at :: "int \<Rightarrow> polygon" where
  "square_at x =
     [(PInt x, PInt 0), (PInt (x + 4), PInt 0), (PInt (x + 4), PInt 4), (PInt x, PInt 4)]"

text \<open>A car at score 0.9 whose record has no box.\<close>

definition boxless_car :: json where
  "boxless_car = JObj [(''label'', JStr ''car''), (''score'', JFloat (round_double (9 / 10)))]"

section \<open>Evaluating the arithmetic\<close>

text \<open>Floor and ceiling of a quotient of numerals, for the simplifier.\<close>

lemma floor_rat_numeral_div [simp]:
  "\<lfloor>numeral a / numeral b :: rat\<rfloor> = numeral a div numeral b"
  by (metis floor_divide_of_int_eq of_int_numeral)

lemma floor_rat_one_div [simp]:
  "\<lfloor>1 / numeral b :: rat\<rfloor> = 1 div numeral b"
  by (metis floor_divide_of_int_eq of_int_1 of_int_numeral)

lemma ceiling_rat_numeral_div [simp]:
  "\<lceil>numeral a / numeral b :: rat\<rceil> = - (- numeral a div numeral b)"
  by (metis ceiling_divide_eq_div of_int_numeral)

lemmas round_double_eval =
  round_double_def ilog2_def bit_length.simps round_half_even_def pow2_def Let_def

lemmas py_eval =
  py_gt_def py_lt_def py_le_def py_eq_def py_ne_def py_min_def py_max_def
  float_of_int_def fl_sub_def signed_inf_def round_double_eval

lemma threshold_value: "threshold = Fin (3152519739159347 / 4503599627370496)"
  by (simp add: threshold_def round_double_eval)

text \<open>Values the interpreter gives: ties go to the even neighbour, an integer is
  converted before a mixed operation, a quotient of integers is rounded once.\<close>

lemma interpreter_arithmetic:
  "round_double (1 / 10) = Fin (3602879701896397 / 36028797018963968)"
  "float_of_int 18014398509481983 = Inr (Fin 18014398509481984)"
  "float_of_int 9007199254740993 = Inr (Fin 9007199254740992)"
  "float_of_int 9007199254740995 = Inr (Fin 9007199254740996)"
  "py_truediv (PInt 1) (PInt 0) = Inl ZeroDivisionError"
  "py_truediv (PFloat (Fin 1)) (PInt 0) = Inl ZeroDivisionError"
  "py_truediv (PInt 1) (PInt 3) = Inr (PFloat (Fin (6004799503160661 / 18014398509481984)))"
  "py_sub (PFloat (Fin 18014398509481984)) (PInt 18014398509481983) = Inr (PFloat (Fin 0))"
  "py_lt (PInt 18014398509481983) (PFloat (Fin 18014398509481984))"
  "\<not> py_lt (PFloat NaN) (PInt 0) \<and> \<not> py_gt (PFloat NaN) (PInt 0) \<and> py_ne (PFloat NaN) (PFloat NaN)"
  by (simp_all add: py_eval)

lemma rounded_product_quotient:
  "ebind (py_mul (PFloat (round_double (19 / 10))) (PInt 6)) (\<lambda>t. py_truediv t (PInt 6)) =
     Inr (PFloat (Fin (8556839292003941 / 4503599627370496)))"
  "round_double (19 / 10) = Fin (8556839292003942 / 4503599627370496)"
  by (simp_all add: py_eval)

lemma rounded_midpoint:
  "midpoint (JInt 9007199254740992) (JInt 9007199254740994) = Inr (PFloat (Fin 9007199254740992))"
  by (simp add: midpoint_def py_eval)

lemma overflow_examples:
  "float_of_int (2 ^ 1024) = Inl OverflowError"
  "midpoint (JInt (2 ^ 1024)) (JInt (2 ^ 1024)) = Inl OverflowError"
  by (simp_all add: midpoint_def py_eval)

section \<open>Facts about the geometry engine\<close>

lemma ebind_assoc: "ebind (ebind m f) g = ebind m (\<lambda>x. ebind (f x) g)"
  by (cases m) simp_all

lemma ebind_Inr_iff: "ebind m f = Inr y \<longleftrightarrow> (\<exists>x. m = Inr x \<and> f x = Inr y)"
  by (cases m) simp_all

lemma ebind_Inl_iff: "ebind m f = Inl e \<longleftrightarrow> m = Inl e \<or> (\<exists>x. m = Inr x \<and> f x = Inl e)"
  by (cases m) simp_all

lemma in_range_not_equal:
  assumes "py_gt cy (py_min ay by)" and "py_le cy (py_max ay by)"
  shows "py_ne ay by"
proof (rule ccontr)
  assume "\<not> py_ne ay by"
  then have eq: "fl_eq (exact ay) (exact by)" by (simp add: py_ne_def py_eq_def)
  then have "\<not> fl_lt (exact by) (exact ay)" "\<not> fl_lt (exact ay) (exact by)"
    by (cases "exact ay"; cases "exact by"; auto)+
  then have mn: "py_min ay by = ay" and mx: "py_max ay by = ay"
    by (simp_all add: py_min_def py_max_def py_lt_def py_gt_def)
  from assms mn mx have "fl_lt (exact ay) (exact cy)"
      "fl_lt (exact cy) (exact ay) \<or> fl_eq (exact cy) (exact ay)"
    by (simp_all add: py_gt_def py_le_def py_lt_def py_eq_def)
  then show False by (cases "exact ay"; cases "exact cy") auto
qed

lemma in_y_range_not_horizontal: "in_y_range cx cy s p2 \<Longrightarrow> py_ne (p1y s) (snd p2)"
  unfolding in_y_range_def using in_range_not_equal by blast

lemma in_y_range_edge: "in_y_range cx cy s p2 = edge_in_range cx cy (p1x s, p1y s) p2"
  by (simp add: in_y_range_def edge_in_range_def)

text \<open>One iteration raises exactly when the crossing test of its edge raises, and
  otherwise flips the flag exactly on a crossing.\<close>

lemma edge_step_crosses:
  "ebind (edge_step cx cy s p2) (\<lambda>s'. Inr (is_inside s', p1x s', p1y s')) =
   ebind (edge_crosses cx cy (p1x s, p1y s) p2) (\<lambda>c. Inr (is_inside s \<noteq> c, fst p2, snd p2))"
proof (cases "in_y_range cx cy s p2")
  case True
  then have ne: "py_ne (p1y s) (snd p2)" by (rule in_y_range_not_horizontal)
  from True have r: "edge_in_range cx cy (p1x s, p1y s) p2" by (simp add: in_y_range_edge)
  show ?thesis
  proof (cases "x_intersection_value cy (p1x s, p1y s) p2")
    case (Inl e)
    with True ne r show ?thesis
      by (simp add: edge_step_def assign_x_intersection_def edge_crosses_def)
  next
    case (Inr xi)
    with True ne r show ?thesis
      by (auto simp: edge_step_def assign_x_intersection_def edge_crosses_def x_test_def)
  qed
next
  case False
  then have "\<not> edge_in_range cx cy (p1x s, p1y s) p2" by (simp add: in_y_range_edge)
  with False show ?thesis
    by (simp add: edge_step_def edge_crosses_def)
qed

lemma loop_body_eq:
  "polygon \<noteq> [] \<Longrightarrow>
   loop_body cx cy polygon i s = edge_step cx cy s (polygon ! (i mod length polygon))"
  by (simp add: loop_body_def py_mod_def py_index_def)

text \<open>The loop over any indices, seen from its flag, is the fold over the pairs of
  consecutive vertices read.\<close>

lemma overlap_loop_cast:
  assumes "polygon \<noteq> []"
  shows "ebind (overlap_loop cx cy polygon is s) (\<lambda>s'. Inr (is_inside s')) =
         cast_edges cx cy
           (zip ((p1x s, p1y s) # map (\<lambda>i. polygon ! (i mod length polygon)) is)
                (map (\<lambda>i. polygon ! (i mod length polygon)) is))
           (is_inside s)"
proof (induction "is" arbitrary: s)
  case Nil
  show ?case by simp
next
  case (Cons i "is")
  let ?v = "polygon ! (i mod length polygon)"
  let ?vs = "map (\<lambda>i. polygon ! (i mod length polygon)) is"
  let ?G = "\<lambda>t :: bool \<times> pynum \<times> pynum.
              cast_edges cx cy (zip ((fst (snd t), snd (snd t)) # ?vs) ?vs) (fst t)"
  have "ebind (overlap_loop cx cy polygon (i # is) s) (\<lambda>s'. Inr (is_inside s')) =
        ebind (edge_step cx cy s ?v)
          (\<lambda>s1. ebind (overlap_loop cx cy polygon is s1) (\<lambda>s'. Inr (is_inside s')))"
    using assms by (simp add: loop_body_eq ebind_assoc)
  also have "\<dots> = ebind (edge_step cx cy s ?v) (\<lambda>s1. ?G (is_inside s1, p1x s1, p1y s1))"
    by (simp add: Cons.IH)
  also have "\<dots> = ebind (ebind (edge_step cx cy s ?v) (\<lambda>s'. Inr (is_inside s', p1x s', p1y s'))) ?G"
    by (simp add: ebind_assoc)
  also have "\<dots> = ebind (ebind (edge_crosses cx cy (p1x s, p1y s) ?v)
                        (\<lambda>c. Inr (is_inside s \<noteq> c, fst ?v, snd ?v))) ?G"
    by (simp only: edge_step_crosses)
  also have "\<dots> = ebind (edge_crosses cx cy (p1x s, p1y s) ?v)
                     (\<lambda>c. cast_edges cx cy (zip (?v # ?vs) ?vs) (is_inside s \<noteq> c))"
    by (simp add: ebind_assoc)
  finally show ?case by simp
qed

lemma vertices_visited:
  "polygon \<noteq> [] \<Longrightarrow>
   map (\<lambda>i. polygon ! (i mod length polygon)) [0 ..< length polygon + 1] = polygon @ [polygon ! 0]"
proof -
  assume "polygon \<noteq> []"
  have "map (\<lambda>i. polygon ! (i mod length polygon)) [0 ..< length polygon] =
        map (\<lambda>i. polygon ! i) [0 ..< length polygon]"
    by (rule map_cong) auto
  then show ?thesis by (simp add: map_nth)
qed

lemma polygon_edges_zip: "polygon_edges (v # rest) = zip (v # rest) (rest @ [v])"
proof (rule nth_equalityI)
  show "length (polygon_edges (v # rest)) = length (zip (v # rest) (rest @ [v]))"
    by (simp add: polygon_edges_def)
next
  fix i assume "i < length (polygon_edges (v # rest))"
  then have i: "i < Suc (length rest)" by (simp add: polygon_edges_def)
  show "polygon_edges (v # rest) ! i = zip (v # rest) (rest @ [v]) ! i"
  proof (cases "i < length rest")
    case True
    then show ?thesis using i by (simp add: polygon_edges_def nth_append)
  next
    case False
    with i have "i = length rest" by simp
    then show ?thesis by (simp add: polygon_edges_def nth_append)
  qed
qed

text \<open>An edge from a vertex to itself is outside every range.\<close>

lemma degenerate_edge_range: "\<not> edge_in_range x y a a"
proof
  assume "edge_in_range x y a a"
  then have "py_gt y (py_min (snd a) (snd a))" "py_le y (py_max (snd a) (snd a))"
    by (simp_all add: edge_in_range_def)
  then have "py_ne (snd a) (snd a)" by (rule in_range_not_equal)
  moreover have "py_min (snd a) (snd a) = snd a" "py_max (snd a) (snd a) = snd a"
    by (simp_all add: py_min_def py_max_def)
  ultimately show False
    using \<open>py_gt y (py_min (snd a) (snd a))\<close> \<open>py_le y (py_max (snd a) (snd a))\<close>
    by (cases "exact (snd a)"; cases "exact y";
        simp add: py_ne_def py_eq_def py_gt_def py_le_def py_lt_def)
qed

lemma degenerate_edge: "edge_crosses x y a a = Inr False"
  by (simp add: edge_crosses_def degenerate_edge_range)

lemma zip_closing: "zip (xs @ [z]) ys = zip xs ys" if "length ys = length xs"
  using that by (induction xs ys rule: list_induct2') auto

lemma point_in_polygon_ray_cast:
  assumes "polygon \<noteq> []"
  shows "point_in_polygon cx cy polygon = ray_cast cx cy polygon"
proof -
  from assms obtain v rest where pg: "polygon = v # rest" by (cases polygon) auto
  let ?s0 = "\<lparr>p1x = fst v, p1y = snd v, is_inside = False, x_intersection = None\<rparr>"
  have z: "zip (v # rest @ [v]) (rest @ [v]) = zip (v # rest) (rest @ [v])"
    using zip_closing [of "rest @ [v]" "v # rest" v] by simp
  have "point_in_polygon cx cy polygon =
        ebind (overlap_loop cx cy polygon [0 ..< length polygon + 1] ?s0) (\<lambda>s. Inr (is_inside s))"
    by (simp add: point_in_polygon_def py_index_def pg)
  also have "\<dots> = cast_edges cx cy (zip (v # polygon @ [polygon ! 0]) (polygon @ [polygon ! 0])) False"
    using overlap_loop_cast [OF assms, of cx cy "[0 ..< length polygon + 1]" ?s0]
      vertices_visited [OF assms] by simp
  also have "\<dots> = ray_cast cx cy polygon"
    by (simp add: z ray_cast_def pg polygon_edges_zip degenerate_edge)
  finally show ?thesis .
qed

lemmas ray_eval =
  point_in_polygon_ray_cast ray_cast_def polygon_edges_zip edge_crosses_def edge_in_range_def
  x_intersection_value_def py_eval

text \<open>A point on an edge in exact arithmetic that the rounded intersection puts
  outside.\<close>

lemma point_on_edge_rounded_away:
  "point_in_polygon (PFloat (round_double (19 / 10))) (PFloat (round_double (19 / 10)))
     [(PInt 0, PInt 0), (PInt 6, PInt 6), (PInt (- 5), PInt 6)] = Inr False"
  by (simp add: ray_eval)

text \<open>The arithmetic raises nothing but the two arithmetic errors.\<close>

lemma float_of_int_error: "float_of_int i = Inl e \<Longrightarrow> e = OverflowError"
  by (auto simp: float_of_int_def split: pyfloat.splits)

lemma py_add_error: "py_add a b = Inl e \<Longrightarrow> e = OverflowError"
  by (cases a; cases b) (auto simp: ebind_Inl_iff dest: float_of_int_error)

lemma py_sub_error: "py_sub a b = Inl e \<Longrightarrow> e = OverflowError"
  by (cases a; cases b) (auto simp: ebind_Inl_iff dest: float_of_int_error)

lemma py_mul_error: "py_mul a b = Inl e \<Longrightarrow> e = OverflowError"
  by (cases a; cases b) (auto simp: ebind_Inl_iff dest: float_of_int_error)

lemma py_truediv_error: "py_truediv a b = Inl e \<Longrightarrow> e = OverflowError \<or> e = ZeroDivisionError"
  by (cases a; cases b)
     (auto simp: ebind_Inl_iff dest: float_of_int_error split: if_splits pyfloat.splits)

lemma x_intersection_value_error:
  "x_intersection_value cy a b = Inl e \<Longrightarrow> e = OverflowError \<or> e = ZeroDivisionError"
  unfolding x_intersection_value_def ebind_Inl_iff
  using py_add_error py_sub_error py_mul_error py_truediv_error by blast

text \<open>No iteration reads \<open>x_intersection\<close> before it is assigned.\<close>

lemma edge_step_no_unbound_read: "edge_step cx cy s p2 \<noteq> Inl UnboundLocalError"
proof (cases "in_y_range cx cy s p2")
  case False
  then show ?thesis by (simp add: edge_step_def)
next
  case True
  then have ne: "py_ne (p1y s) (snd p2)" by (rule in_y_range_not_horizontal)
  show ?thesis
  proof (cases "x_intersection_value cy (p1x s, p1y s) p2")
    case (Inl e)
    then have "e \<noteq> UnboundLocalError" using x_intersection_value_error by blast
    with Inl True ne show ?thesis
      by (simp add: edge_step_def assign_x_intersection_def)
  next
    case (Inr xi)
    with True ne show ?thesis
      by (simp add: edge_step_def assign_x_intersection_def x_test_def)
  qed
qed

text \<open>An edge whose end points have equal y-coordinates changes neither the flag nor
  \<open>x_intersection\<close>.\<close>

lemma horizontal_edge_step:
  "py_eq (p1y s) (snd p2) \<Longrightarrow> edge_step cx cy s p2 = Inr (s\<lparr>p1x := fst p2, p1y := snd p2\<rparr>)"
  using in_y_range_not_horizontal [of cx cy s p2]
  by (auto simp: edge_step_def py_ne_def)

section \<open>Facts about the detection filter\<close>

lemma score_values:
  "round_double (9 / 10) = Fin (8106479329266893 / 9007199254740992)"
  "round_double (1 / 2) = Fin (1 / 2)"
  "round_double (4 / 5) = Fin (3602879701896397 / 4503599627370496)"
  "round_double (99 / 100) = Fin (4458563631096791 / 4503599627370496)"
  by (simp_all add: round_double_eval)

lemma score_checks:
  "score_above_threshold (JFloat (round_double (9 / 10))) = Inr True"
  "score_above_threshold (JFloat (round_double (4 / 5))) = Inr True"
  "score_above_threshold (JFloat (round_double (1 / 2))) = Inr False"
  "score_above_threshold (JFloat threshold) = Inr False"
  "score_above_threshold (JInt 0) = Inr False"
  "score_above_threshold (JInt 1) = Inr True"
  "score_above_threshold JNull = Inl TypeError"
  by (simp_all add: score_above_threshold_def threshold_value score_values py_gt_def)

lemma keep_boxless_car: "keep_vehicle boxless_car = Inr True"
  by (simp add: boxless_car_def get_score_def vehicle_labels_def score_checks)

lemma keep_detection:
  "keep_vehicle (detection l sc b) =
     (if l \<in> vehicle_labels then score_above_threshold (JFloat sc) else Inr False)"
  by (cases b) (simp add: detection_def get_score_def)

lemma detected_vehicles_drop:
  "keep_vehicle d = Inr False \<Longrightarrow> detected_vehicles (xs @ d # ys) = detected_vehicles (xs @ ys)"
  by (induction xs) (auto split: sum.splits)

lemmas resolver_eval =
  occupancy_of_def keep_detection keep_boxless_car score_checks vehicle_labels_def
  check_overlap_def box_center_def midpoint_def detection_def square_at_def ray_eval

section \<open>Facts about the status aggregator\<close>

lemma status_loop_returns:
  assumes "\<forall>k d. (k, d) \<in> set cfg \<longrightarrow> (\<exists>v. camera_status rg sv hf k d = Inr v)"
  shows "\<exists>st'. status_loop rg sv hf cfg st = Inr st' \<and>
           dom st' = dom st \<union> fst ` set cfg \<and>
           (\<forall>k. k \<notin> fst ` set cfg \<longrightarrow> st' k = st k) \<and>
           (distinct (map fst cfg) \<longrightarrow>
              (\<forall>k d. (k, d) \<in> set cfg \<longrightarrow> (\<exists>v. st' k = Some v \<and> camera_status rg sv hf k d = Inr v)))"
  using assms
proof (induction cfg arbitrary: st)
  case Nil
  show ?case by simp
next
  case (Cons kd rest)
  obtain k0 d0 where kd: "kd = (k0, d0)" by (cases kd)
  from Cons.prems kd obtain v0 where v0: "camera_status rg sv hf k0 d0 = Inr v0" by auto
  from Cons.prems have "\<forall>k d. (k, d) \<in> set rest \<longrightarrow> (\<exists>v. camera_status rg sv hf k d = Inr v)" by simp
  from Cons.IH [OF this, of "st(k0 \<mapsto> v0)"] obtain st' where
    run: "status_loop rg sv hf rest (st(k0 \<mapsto> v0)) = Inr st'"
    and dm: "dom st' = dom (st(k0 \<mapsto> v0)) \<union> fst ` set rest"
    and out: "\<forall>k. k \<notin> fst ` set rest \<longrightarrow> st' k = (st(k0 \<mapsto> v0)) k"
    and inn: "distinct (map fst rest) \<longrightarrow>
              (\<forall>k d. (k, d) \<in> set rest \<longrightarrow> (\<exists>v. st' k = Some v \<and> camera_status rg sv hf k d = Inr v))"
    by blast
  have 1: "status_loop rg sv hf (kd # rest) st = Inr st'"
    using run v0 kd by simp
  have 2: "dom st' = dom st \<union> fst ` set (kd # rest)"
    using dm kd by auto
  have 3: "\<forall>k. k \<notin> fst ` set (kd # rest) \<longrightarrow> st' k = st k"
    using out kd by auto
  have 4: "distinct (map fst (kd # rest)) \<longrightarrow>
              (\<forall>k d. (k, d) \<in> set (kd # rest) \<longrightarrow> (\<exists>v. st' k = Some v \<and> camera_status rg sv hf k d = Inr v))"
  proof (intro impI allI)
    fix k d
    assume d: "distinct (map fst (kd # rest))" and m: "(k, d) \<in> set (kd # rest)"
    from d kd have notin: "k0 \<notin> fst ` set rest" by simp
    from m kd have "(k, d) = (k0, d0) \<or> (k, d) \<in> set rest" by simp
    then show "\<exists>v. st' k = Some v \<and> camera_status rg sv hf k d = Inr v"
    proof
      assume "(k, d) = (k0, d0)"
      moreover from notin out have "st' k0 = Some v0" by simp
      ultimately show ?thesis using v0 by simp
    next
      assume "(k, d) \<in> set rest"
      moreover from d have "distinct (map fst rest)" by simp
      ultimately show ?thesis using inn by blast
    qed
  qed
  from 1 2 3 4 show ?case by (intro exI [of _ st'] conjI)
qed

lemma status_loop_all_return:
  "status_loop rg sv hf cfg st = Inr st' \<Longrightarrow> (k, d) \<in> set cfg \<Longrightarrow>
   \<exists>v. camera_status rg sv hf k d = Inr v"
proof (induction cfg arbitrary: st)
  case Nil
  then show ?case by simp
next
  case (Cons kd rest)
  obtain k0 d0 where kd: "kd = (k0, d0)" by (cases kd)
  show ?case
  proof (cases "camera_status rg sv hf k0 d0")
    case (Inl e)
    with Cons.prems kd show ?thesis by simp
  next
    case (Inr v0)
    with Cons.prems kd have r: "status_loop rg sv hf rest (st(k0 \<mapsto> v0)) = Inr st'" by simp
    from Cons.prems(2) kd have "(k, d) = (k0, d0) \<or> (k, d) \<in> set rest" by simp
    then show ?thesis
    proof
      assume "(k, d) = (k0, d0)"
      with Inr show ?thesis by simp
    next
      assume "(k, d) \<in> set rest"
      with Cons.IH [OF r] show ?thesis .
    qed
  qed
qed

lemma run_status_check_returns:
  assumes "\<forall>k d. (k, d) \<in> set cfg \<longrightarrow> (\<exists>v. camera_status rg sv hf k d = Inr v)"
    and "distinct (map fst cfg)"
  shows "\<exists>st. run_status_check rg sv hf cfg = Inr st \<and>
           dom st = fst ` set cfg \<and>
           (\<forall>k. k \<notin> fst ` set cfg \<longrightarrow> st k = None) \<and>
           (\<forall>k d. (k, d) \<in> set cfg \<longrightarrow> (\<exists>v. st k = Some v \<and> camera_status rg sv hf k d = Inr v))"
  using status_loop_returns [OF assms(1), of Map.empty] assms(2)
  unfolding run_status_check_def by simp

lemma distinct_keys_same_entry:
  "distinct (map fst cfg) \<Longrightarrow> (k, d) \<in> set cfg \<Longrightarrow> (k, d') \<in> set cfg \<Longrightarrow> d = d'"
  by (rule eq_key_imp_eq_value)

lemmas cam_num_eval =
  cam_num_of_def py_int_def split_sign_def py_strip_def py_isspace_def digit_value_def

lemma cam_nums:
  "cam_num_of ''cam1'' = Inr 1" "cam_num_of ''cam2'' = Inr 2" "cam_num_of ''cam3'' = Inr 3"
  "cam_num_of ''lobby'' = Inl ValueError"
  by (simp_all add: cam_num_eval)

section \<open>Detection filter: claims\<close>

text \<open>
  C1 (a record with a vehicle label and a passing score but no bounding box is
  skipped and the resolution completes): the filter looks at the label and the
  score only, so such a record stays in the filtered list; the lookup
  \<^verbatim>\<open>vehicle['box']\<close> in the containment loop then raises KeyError, and the
  cycle ends with that exception.
\<close>

theorem boxless_vehicle_raises:
  "detected_vehicles [boxless_car] = Inr [boxless_car] \<and>
   occupancy_of (JList [boxless_car]) [square_at 0] = Inl KeyError \<and>
   run_status_check (page_with_src ''data:image/png;base64,AAAA'') saved (answers (JList [boxless_car]))
     [(''cam1'', \<lparr>polygons = Some [square_at 0], map_spots = None\<rparr>)] = Inl KeyError"
proof -
  have f: "detected_vehicles [boxless_car] = Inr [boxless_car]"
    by (simp add: keep_boxless_car)
  have g: "py_getitem boxless_car ''box'' = Inl KeyError"
    by (simp add: boxless_car_def)
  have o: "occupancy_of (JList [boxless_car]) [square_at 0] = Inl KeyError"
    by (simp add: occupancy_of_def keep_boxless_car g)
  have p: "fetch_cam_image (page_with_src ''data:image/png;base64,AAAA'') saved 1 =
             Inr (Some ''images/snapshot.png'')"
    by (simp add: fetch_cam_image_def page_with_src_def saved_def py_index_def)
  from f o p show ?thesis
    by (simp add: run_status_check_def camera_status_def cam_nums get_polygons_def
          detect_occupancy_def answers_def square_at_def)
qed

text \<open>
  C3 (the filter keeps exactly the well-formed detections with a vehicle label
  and a score above 0.7): a car at 0.9 without a box is not a well-formed
  detection, and the filter keeps it; a car whose score is null makes the
  filter raise TypeError instead of dropping the record.
\<close>

theorem filter_keeps_boxless_vehicle:
  "detected_vehicles [boxless_car] = Inr [boxless_car] \<and> \<not> wf_detection boxless_car \<and>
   detected_vehicles [JObj [(''label'', JStr ''car''), (''score'', JNull)]] = Inl TypeError"
  by (simp add: keep_boxless_car wf_detection_def boxless_car_def get_score_def vehicle_labels_def
        score_checks)

text \<open>
  C10: an object with a vehicle label and no score field is given the score 0,
  fails the threshold test without raising, and the filter's outcome on a list
  is the same with and without it.
\<close>

theorem no_score_excluded:
  "map_of kvs ''label'' = Some (JStr l) \<Longrightarrow> l \<in> vehicle_labels \<Longrightarrow> map_of kvs ''score'' = None \<Longrightarrow>
   get_score kvs = JInt 0 \<and> keep_vehicle (JObj kvs) = Inr False \<and>
   detected_vehicles (xs @ JObj kvs # ys) = detected_vehicles (xs @ ys)"
proof -
  assume a: "map_of kvs ''label'' = Some (JStr l)" "l \<in> vehicle_labels" "map_of kvs ''score'' = None"
  then have k: "keep_vehicle (JObj kvs) = Inr False" by (simp add: get_score_def score_checks)
  from a k show ?thesis by (simp add: get_score_def detected_vehicles_drop)
qed

theorem no_score_excluded_witness:
  "detected_vehicles
     [detection ''car'' (round_double (9 / 10)) (1, 1, 3, 3), JObj [(''label'', JStr ''truck'')],
      detection ''bus'' (round_double (4 / 5)) (5, 5, 7, 7)] =
   Inr [detection ''car'' (round_double (9 / 10)) (1, 1, 3, 3),
        detection ''bus'' (round_double (4 / 5)) (5, 5, 7, 7)]"
proof -
  have h1: "map_of [(''label'', JStr ''truck'')] ''label'' = Some (JStr ''truck'')" by simp
  have h2: "''truck'' \<in> vehicle_labels" by (simp add: vehicle_labels_def)
  have h3: "map_of [(''label'', JStr ''truck'')] ''score'' = None" by simp
  have e: "detected_vehicles
     ([detection ''car'' (round_double (9 / 10)) (1, 1, 3, 3)] @
      [detection ''bus'' (round_double (4 / 5)) (5, 5, 7, 7)]) =
     Inr [detection ''car'' (round_double (9 / 10)) (1, 1, 3, 3),
          detection ''bus'' (round_double (4 / 5)) (5, 5, 7, 7)]"
    by (simp add: keep_detection score_checks vehicle_labels_def)
  from no_score_excluded [OF h1 h2 h3, of "[detection ''car'' (round_double (9 / 10)) (1, 1, 3, 3)]"
      "[detection ''bus'' (round_double (4 / 5)) (5, 5, 7, 7)]"] e
  show ?thesis by simp
qed

section \<open>Geometry engine: claims\<close>

text \<open>
  C6 (for every point and every polygon with at least three vertices the test
  gives a boolean by the half-open rule): for a triangle with an edge from the
  integer y-coordinate \<open>2 ^ 54 - 1\<close> to the float \<open>2 ^ 54\<close> and a box whose
  center has the y-coordinate \<open>2 ^ 54\<close>, the range test and \<^verbatim>\<open>p1y != p2y\<close> hold,
  the divisor \<^verbatim>\<open>p2y - p1y\<close> rounds to zero, and the test raises
  ZeroDivisionError instead of giving a boolean.
\<close>

theorem mixed_number_triangle_raises:
  "check_overlap
     (JObj [(''xmin'', JInt 0), (''ymin'', JInt 18014398509481984),
            (''xmax'', JInt 0), (''ymax'', JInt 18014398509481984)])
     [(PInt 5, PInt 18014398509481983), (PInt 5, PFloat (Fin 18014398509481984)),
      (PInt 0, PInt 0)] = Inl ZeroDivisionError \<and>
   box_center
     (JObj [(''xmin'', JInt 0), (''ymin'', JInt 18014398509481984),
            (''xmax'', JInt 0), (''ymax'', JInt 18014398509481984)]) =
     Inr (PFloat (Fin 0), PFloat (Fin 18014398509481984))"
proof -
  have c: "box_center
     (JObj [(''xmin'', JInt 0), (''ymin'', JInt 18014398509481984),
            (''xmax'', JInt 0), (''ymax'', JInt 18014398509481984)]) =
     Inr (PFloat (Fin 0), PFloat (Fin 18014398509481984))"
    by (simp add: box_center_def midpoint_def py_eval)
  have "point_in_polygon (PFloat (Fin 0)) (PFloat (Fin 18014398509481984))
     [(PInt 5, PInt 18014398509481983), (PInt 5, PFloat (Fin 18014398509481984)),
      (PInt 0, PInt 0)] = Inl ZeroDivisionError"
    by (simp add: ray_eval)
  with c show ?thesis by (simp add: check_overlap_def)
qed

text \<open>
  C7 (the test never divides by zero): the guard \<^verbatim>\<open>p1y != p2y\<close> compares an
  integer with a float exactly, while the subtraction first converts the
  integer to a double. For \<open>2 ^ 54 - 1\<close> and the float \<open>2 ^ 54\<close> the guard
  holds and the difference is zero, so the assignment of \<open>x_intersection\<close> raises
  ZeroDivisionError, and with it the iteration and the test.
\<close>

theorem guard_admits_zero_divisor:
  "py_ne (PInt 18014398509481983) (PFloat (Fin 18014398509481984)) \<and>
   py_sub (PFloat (Fin 18014398509481984)) (PInt 18014398509481983) = Inr (PFloat (Fin 0)) \<and>
   in_y_range (PFloat (Fin 0)) (PFloat (Fin 18014398509481984))
     \<lparr>p1x = PInt 5, p1y = PInt 18014398509481983, is_inside = False, x_intersection = None\<rparr>
     (PInt 5, PFloat (Fin 18014398509481984)) \<and>
   assign_x_intersection (PFloat (Fin 18014398509481984))
     \<lparr>p1x = PInt 5, p1y = PInt 18014398509481983, is_inside = False, x_intersection = None\<rparr>
     (PInt 5, PFloat (Fin 18014398509481984)) = Inl ZeroDivisionError \<and>
   edge_step (PFloat (Fin 0)) (PFloat (Fin 18014398509481984))
     \<lparr>p1x = PInt 5, p1y = PInt 18014398509481983, is_inside = False, x_intersection = None\<rparr>
     (PInt 5, PFloat (Fin 18014398509481984)) = Inl ZeroDivisionError \<and>
   point_in_polygon (PFloat (Fin 0)) (PFloat (Fin 18014398509481984))
     [(PInt 5, PInt 18014398509481983), (PInt 5, PFloat (Fin 18014398509481984))] =
     Inl ZeroDivisionError"
proof -
  let ?s = "\<lparr>p1x = PInt 5, p1y = PInt 18014398509481983, is_inside = False, x_intersection = None\<rparr>"
  let ?p2 = "(PInt 5, PFloat (Fin 18014398509481984))"
  let ?cy = "PFloat (Fin 18014398509481984)"
  have n: "py_ne (PInt 18014398509481983) ?cy"
    by (simp add: py_eval)
  have d: "py_sub ?cy (PInt 18014398509481983) = Inr (PFloat (Fin 0))"
    by (simp add: py_eval)
  have r: "in_y_range (PFloat (Fin 0)) ?cy ?s ?p2"
    by (simp add: in_y_range_def py_eval)
  have a: "assign_x_intersection ?cy ?s ?p2 = Inl ZeroDivisionError"
    by (simp add: assign_x_intersection_def x_intersection_value_def py_eval)
  from r a have e: "edge_step (PFloat (Fin 0)) ?cy ?s ?p2 = Inl ZeroDivisionError"
    by (simp add: edge_step_def)
  have p: "point_in_polygon (PFloat (Fin 0)) ?cy [(PInt 5, PInt 18014398509481983), ?p2] =
             Inl ZeroDivisionError"
    by (simp add: ray_eval)
  from n d r a e p show ?thesis by (intro conjI)
qed

text \<open>
  C9: on a polygon with at least one vertex the loop of \<open>num_vertices + 1\<close>
  iterations computes the ray-cast fold over the \<open>num_vertices\<close> edges from vertex
  \<open>i\<close> to vertex \<open>(i + 1) mod num_vertices\<close>: the same boolean, or the same
  exception where the arithmetic of an edge raises. The first iteration pairs
  vertex 0 with itself and returns the initial state unchanged, so the loop
  from index 0 equals the loop from index 1.
\<close>

theorem extra_iteration_harmless:
  assumes "polygon \<noteq> []"
  shows "point_in_polygon cx cy polygon = ray_cast cx cy polygon \<and>
         check_overlap box polygon =
           ebind (box_center box) (\<lambda>c. ray_cast (fst c) (snd c) polygon) \<and>
         length (polygon_edges polygon) = length polygon \<and>
         loop_body cx cy polygon 0
             \<lparr>p1x = fst (polygon ! 0), p1y = snd (polygon ! 0), is_inside = False,
              x_intersection = None\<rparr> =
           Inr \<lparr>p1x = fst (polygon ! 0), p1y = snd (polygon ! 0), is_inside = False,
                x_intersection = None\<rparr> \<and>
         overlap_loop cx cy polygon [0 ..< length polygon + 1]
             \<lparr>p1x = fst (polygon ! 0), p1y = snd (polygon ! 0), is_inside = False,
              x_intersection = None\<rparr> =
           overlap_loop cx cy polygon [1 ..< length polygon + 1]
             \<lparr>p1x = fst (polygon ! 0), p1y = snd (polygon ! 0), is_inside = False,
              x_intersection = None\<rparr>"
proof -
  let ?s0 = "\<lparr>p1x = fst (polygon ! 0), p1y = snd (polygon ! 0), is_inside = False,
              x_intersection = None\<rparr>"
  have 1: "point_in_polygon cx cy polygon = ray_cast cx cy polygon"
    using assms by (rule point_in_polygon_ray_cast)
  have 2: "check_overlap box polygon =
           ebind (box_center box) (\<lambda>c. ray_cast (fst c) (snd c) polygon)"
    using assms by (simp add: check_overlap_def point_in_polygon_ray_cast)
  have 3: "length (polygon_edges polygon) = length polygon"
    by (simp add: polygon_edges_def)
  have "\<not> in_y_range cx cy ?s0 (polygon ! 0)"
    using degenerate_edge_range [of cx cy "polygon ! 0"] by (simp add: in_y_range_edge)
  then have 4: "loop_body cx cy polygon 0 ?s0 = Inr ?s0"
    using assms by (simp add: loop_body_eq edge_step_def)
  have "[0 ..< length polygon + 1] = 0 # [1 ..< length polygon + 1]"
    by (simp add: upt_rec)
  with 4 have 5: "overlap_loop cx cy polygon [0 ..< length polygon + 1] ?s0 =
                  overlap_loop cx cy polygon [1 ..< length polygon + 1] ?s0"
    by simp
  from 1 2 3 4 5 show ?thesis by (intro conjI)
qed

text \<open>A triangle with a point inside and one outside, a polygon of one vertex, and
  a triangle on which both the loop and the fold raise.\<close>

theorem extra_iteration_harmless_witness:
  "point_in_polygon (PFloat (Fin 1)) (PFloat (Fin 1))
     [(PInt 0, PInt 0), (PInt 4, PInt 0), (PInt 0, PInt 4)] = Inr True \<and>
   point_in_polygon (PFloat (Fin 3)) (PFloat (Fin 3))
     [(PInt 0, PInt 0), (PInt 4, PInt 0), (PInt 0, PInt 4)] = Inr False \<and>
   point_in_polygon (PFloat (Fin 7)) (PFloat (Fin 7)) [(PInt 7, PInt 7)] = Inr False \<and>
   point_in_polygon (PFloat (Fin 0)) (PFloat (Fin 18014398509481984))
     [(PInt 5, PInt 18014398509481983), (PInt 5, PFloat (Fin 18014398509481984)),
      (PInt 0, PInt 0)] = Inl ZeroDivisionError"
proof -
  let ?tri = "[(PInt 0, PInt 0), (PInt 4, PInt 0), (PInt 0, PInt 4)] :: polygon"
  let ?bad = "[(PInt 5, PInt 18014398509481983), (PInt 5, PFloat (Fin 18014398509481984)),
      (PInt 0, PInt 0)] :: polygon"
  have ne: "?tri \<noteq> []" "[(PInt 7, PInt 7)] \<noteq> ([] :: polygon)" "?bad \<noteq> []"
    by simp_all
  have "ray_cast (PFloat (Fin 1)) (PFloat (Fin 1)) ?tri = Inr True"
       "ray_cast (PFloat (Fin 3)) (PFloat (Fin 3)) ?tri = Inr False"
       "ray_cast (PFloat (Fin 7)) (PFloat (Fin 7)) [(PInt 7, PInt 7)] = Inr False"
       "ray_cast (PFloat (Fin 0)) (PFloat (Fin 18014398509481984)) ?bad = Inl ZeroDivisionError"
    by (simp_all add: ray_cast_def polygon_edges_zip edge_crosses_def edge_in_range_def
          x_intersection_value_def py_eval)
  with extra_iteration_harmless [OF ne(1), where cx = "PFloat (Fin 1)" and cy = "PFloat (Fin 1)",
         THEN conjunct1]
       extra_iteration_harmless [OF ne(1), where cx = "PFloat (Fin 3)" and cy = "PFloat (Fin 3)",
         THEN conjunct1]
       extra_iteration_harmless [OF ne(2), where cx = "PFloat (Fin 7)" and cy = "PFloat (Fin 7)",
         THEN conjunct1]
       extra_iteration_harmless [OF ne(3), where cx = "PFloat (Fin 0)"
         and cy = "PFloat (Fin 18014398509481984)", THEN conjunct1]
  show ?thesis by simp
qed

section \<open>Occupancy resolver: claims\<close>

text \<open>
  C2 (with a non-empty filtered list the resolver returns one entry per
  polygon, true exactly when the box center of some filtered detection is
  inside): a car with a box followed by a car without one passes the filter
  whole. The first polygon is answered by the first car; for the second polygon
  the first car is outside, the second is asked for its box, and the lookup
  raises KeyError, so no vector is returned. With the boxed car alone the same
  polygons give the vector the claim describes.
\<close>

theorem second_vehicle_without_box_raises:
  "detected_vehicles [detection ''car'' (round_double (9 / 10)) (1, 1, 3, 3), boxless_car] =
     Inr [detection ''car'' (round_double (9 / 10)) (1, 1, 3, 3), boxless_car] \<and>
   occupancy_of (JList [detection ''car'' (round_double (9 / 10)) (1, 1, 3, 3), boxless_car])
     [square_at 0, square_at 10] = Inl KeyError \<and>
   occupancy_of (JList [detection ''car'' (round_double (9 / 10)) (1, 1, 3, 3)])
     [square_at 0, square_at 10] = Inr [True, False]"
proof -
  let ?car = "detection ''car'' (round_double (9 / 10)) (1, 1, 3, 3)"
  have f: "detected_vehicles [?car, boxless_car] = Inr [?car, boxless_car]"
          "detected_vehicles [?car] = Inr [?car]"
    by (simp_all add: keep_detection keep_boxless_car score_checks vehicle_labels_def)
  have g: "py_getitem boxless_car ''box'' = Inl KeyError"
    by (simp add: boxless_car_def)
  let ?box = "JObj [(''xmin'', JInt 1), (''ymin'', JInt 1), (''xmax'', JInt 3), (''ymax'', JInt 3)]"
  have b: "py_getitem ?car ''box'' = Inr ?box"
    by (simp add: detection_def)
  have c: "check_overlap ?box (square_at 0) = Inr True"
          "check_overlap ?box (square_at 10) = Inr False"
    by (simp_all add: resolver_eval)
  have a: "any_overlap [?car, boxless_car] (square_at 0) = Inr True"
          "any_overlap [?car, boxless_car] (square_at 10) = Inl KeyError"
          "any_overlap [?car] (square_at 0) = Inr True"
          "any_overlap [?car] (square_at 10) = Inr False"
    by (simp_all add: b c g)
  from f a show ?thesis
    by (simp add: occupancy_of_def del: detected_vehicles.simps any_overlap.simps)
qed

text \<open>
  C4: when the filtered list is empty, the result is all-false with one entry
  per polygon, whatever the polygons are: no polygon is read, so even a polygon
  without vertices, on which the containment test would raise, does no harm.
\<close>

theorem empty_filter_all_false:
  "py_iter all_detected_objects = Inr objs \<Longrightarrow> detected_vehicles objs = Inr [] \<Longrightarrow>
   occupancy_of all_detected_objects polys = Inr (replicate (length polys) False)"
  by (simp add: occupancy_of_def)

text \<open>A lone person over five polygons, one of them without vertices, and an error
  payload in place of the list.\<close>

theorem empty_filter_all_false_witness:
  "occupancy_of (JList [detection ''person'' (round_double (99 / 100)) (1, 1, 3, 3)])
     [square_at 0, [], [(PInt 0, PInt 0), (PInt 1, PInt 0), (PInt 0, PInt 1)],
      [(PInt 5, PInt 5)], [(PInt 2, PInt 2), (PInt 3, PInt 3)]] =
     Inr [False, False, False, False, False] \<and>
   occupancy_of (JObj [(''error'', JStr ''Model is loading'')]) [square_at 0, square_at 10] =
     Inr [False, False]"
proof -
  have i1: "py_iter (JList [detection ''person'' (round_double (99 / 100)) (1, 1, 3, 3)]) =
              Inr [detection ''person'' (round_double (99 / 100)) (1, 1, 3, 3)]"
    by simp
  have h1: "detected_vehicles [detection ''person'' (round_double (99 / 100)) (1, 1, 3, 3)] = Inr []"
    by (simp add: keep_detection vehicle_labels_def)
  have i2: "py_iter (JObj [(''error'', JStr ''Model is loading'')]) = Inr [JStr ''error'']"
    by simp
  have h2: "detected_vehicles [JStr ''error''] = Inr []"
    by simp
  from empty_filter_all_false [OF i1 h1,
      of "[square_at 0, [], [(PInt 0, PInt 0), (PInt 1, PInt 0), (PInt 0, PInt 1)],
           [(PInt 5, PInt 5)], [(PInt 2, PInt 2), (PInt 3, PInt 3)]]"]
    empty_filter_all_false [OF i2 h2, of "[square_at 0, square_at 10]"]
  show ?thesis by (simp add: numeral_eq_Suc)
qed

section \<open>Status aggregator: claims\<close>

text \<open>
  C5 (a camera whose image cannot be acquired gets all-false, and the cycle
  completes): a page whose \<^verbatim>\<open>img\<close> tag has a \<^verbatim>\<open>src\<close> that starts with
  \<^verbatim>\<open>data:image\<close> and has no comma makes \<^verbatim>\<open>split(",")[1]\<close> raise IndexError, and
  a payload that cannot be decoded raises in the decoder. Neither is caught, so
  the cycle ends with the exception. The sibling failures, a request that
  fails and a page without an embedded image, give \<open>None\<close> and the all-false
  vector.
\<close>

theorem malformed_page_ends_cycle:
  "fetch_cam_image (page_with_src ''data:image/png;base64'') saved 1 = Inl IndexError \<and>
   run_status_check (page_with_src ''data:image/png;base64'') saved (answers (JList []))
     [(''cam1'', \<lparr>polygons = Some [square_at 0, square_at 10], map_spots = None\<rparr>)] =
     Inl IndexError \<and>
   run_status_check (page_with_src ''data:image/png;base64,AAAA'') undecodable (answers (JList []))
     [(''cam1'', \<lparr>polygons = Some [square_at 0, square_at 10], map_spots = None\<rparr>)] =
     Inl ValueError \<and>
   camera_status unreachable saved (answers (JList []))
     ''cam1'' \<lparr>polygons = Some [square_at 0, square_at 10], map_spots = None\<rparr> =
     Inr [False, False] \<and>
   camera_status (page_with_src ''about:blank'') saved (answers (JList []))
     ''cam1'' \<lparr>polygons = Some [square_at 0, square_at 10], map_spots = None\<rparr> =
     Inr [False, False]"
proof -
  have p: "fetch_cam_image (page_with_src ''data:image/png;base64'') saved 1 = Inl IndexError"
          "fetch_cam_image (page_with_src ''data:image/png;base64,AAAA'') undecodable 1 =
             Inl ValueError"
          "fetch_cam_image unreachable saved 1 = Inr None"
          "fetch_cam_image (page_with_src ''about:blank'') saved 1 = Inr None"
    by (simp_all add: fetch_cam_image_def page_with_src_def saved_def undecodable_def
          unreachable_def py_index_def)
  then show ?thesis
    by (simp add: run_status_check_def camera_status_def cam_nums get_polygons_def
          square_at_def)
qed

text \<open>
  C8, as stated for every configuration mapping, fails: the key is parsed
  before the polygons are looked at, so a key that is not a camera identifier
  ends the cycle with ValueError, though its polygon list is empty; and so
  does such a key beside a camera without polygons.
\<close>

theorem unparsable_key_ends_cycle:
  "run_status_check unreachable saved (answers (JList []))
     [(''lobby'', \<lparr>polygons = Some [], map_spots = None\<rparr>)] = Inl ValueError \<and>
   run_status_check unreachable saved (answers (JList []))
     [(''cam1'', \<lparr>polygons = Some [], map_spots = None\<rparr>),
      (''lobby'', \<lparr>polygons = Some [], map_spots = None\<rparr>)] = Inl ValueError"
  by (simp add: run_status_check_def camera_status_def cam_nums get_polygons_def)

text \<open>
  C8, amended: for a configured camera whose key parses to a camera number and
  whose polygon list is empty or absent, the work for that camera returns the
  empty vector whatever the image source and the detection service do, since
  neither is called; every status a cycle returns assigns it the empty vector;
  and the cycle returns, with exactly the configured keys, when the work for
  every other entry returns.
\<close>

theorem empty_polygons_empty_vector:
  assumes dist: "distinct (map fst spots_data)"
    and mem: "(cam_str, data) \<in> set spots_data"
    and polys: "get_polygons data = []"
    and num: "cam_num_of cam_str = Inr n"
  shows "camera_status requests_get save_snapshot hf_detect_objects cam_str data = Inr [] \<and>
         (\<forall>st. run_status_check requests_get save_snapshot hf_detect_objects spots_data = Inr st \<longrightarrow>
               st cam_str = Some []) \<and>
         ((\<forall>k d. (k, d) \<in> set spots_data \<and> k \<noteq> cam_str \<longrightarrow>
              (\<exists>v. camera_status requests_get save_snapshot hf_detect_objects k d = Inr v)) \<longrightarrow>
          (\<exists>st. run_status_check requests_get save_snapshot hf_detect_objects spots_data = Inr st \<and>
                dom st = fst ` set spots_data \<and> st cam_str = Some []))"
proof (intro conjI allI impI)
  let ?cs = "camera_status requests_get save_snapshot hf_detect_objects"
  let ?run = "run_status_check requests_get save_snapshot hf_detect_objects spots_data"
  show own: "?cs cam_str data = Inr []"
    using polys num by (simp add: camera_status_def)
  {
    fix st assume run: "?run = Inr st"
    then have all: "\<forall>k d. (k, d) \<in> set spots_data \<longrightarrow> (\<exists>v. ?cs k d = Inr v)"
      unfolding run_status_check_def using status_loop_all_return by blast
    from run_status_check_returns [OF all dist] run have
      "\<forall>k d. (k, d) \<in> set spots_data \<longrightarrow> (\<exists>v. st k = Some v \<and> ?cs k d = Inr v)"
      by simp
    with mem obtain v where "st cam_str = Some v" "?cs cam_str data = Inr v" by blast
    with own show "st cam_str = Some []" by simp
  }
  note entry = this
  assume others: "\<forall>k d. (k, d) \<in> set spots_data \<and> k \<noteq> cam_str \<longrightarrow> (\<exists>v. ?cs k d = Inr v)"
  have all: "\<forall>k d. (k, d) \<in> set spots_data \<longrightarrow> (\<exists>v. ?cs k d = Inr v)"
  proof (intro allI impI)
    fix k d assume kd: "(k, d) \<in> set spots_data"
    show "\<exists>v. ?cs k d = Inr v"
    proof (cases "k = cam_str")
      case True
      with kd have "(cam_str, d) \<in> set spots_data" by simp
      from distinct_keys_same_entry [OF dist this mem] True own show ?thesis by simp
    next
      case False
      with kd others show ?thesis by blast
    qed
  qed
  from run_status_check_returns [OF all dist] obtain st where
    run: "?run = Inr st" and dm: "dom st = fst ` set spots_data"
    by blast
  from entry [OF run] run dm
  show "\<exists>st. ?run = Inr st \<and> dom st = fst ` set spots_data \<and> st cam_str = Some []"
    by blast
qed

text \<open>An empty polygon list and an absent one, with an image source and a decoder
  that would raise and a detection service whose answer cannot be iterated.\<close>

theorem empty_polygons_empty_vector_witness:
  "camera_status (page_with_src ''data:image/png;base64'') undecodable (answers JNull)
     ''cam3'' \<lparr>polygons = Some [], map_spots = Some [(PInt 5, PInt 5)]\<rparr> = Inr [] \<and>
   (\<exists>st. run_status_check (page_with_src ''data:image/png;base64'') undecodable (answers JNull)
           [(''cam3'', \<lparr>polygons = Some [], map_spots = Some [(PInt 5, PInt 5)]\<rparr>),
            (''cam2'', \<lparr>polygons = None, map_spots = None\<rparr>)] = Inr st \<and>
         st ''cam3'' = Some [] \<and> dom st = {''cam3'', ''cam2''})"
proof -
  let ?rg = "page_with_src ''data:image/png;base64''"
  let ?d3 = "\<lparr>polygons = Some [], map_spots = Some [(PInt 5, PInt 5)]\<rparr>"
  let ?d2 = "\<lparr>polygons = None, map_spots = None\<rparr> :: camera_config"
  let ?cfg = "[(''cam3'', ?d3), (''cam2'', ?d2)]"
  have d: "distinct (map fst ?cfg)" by simp
  have m: "(''cam3'', ?d3) \<in> set ?cfg" by simp
  have p: "get_polygons ?d3 = []" by (simp add: get_polygons_def)
  have c2: "camera_status ?rg undecodable (answers JNull) ''cam2'' ?d2 = Inr []"
    by (simp add: camera_status_def cam_nums get_polygons_def)
  have o: "\<forall>k d. (k, d) \<in> set ?cfg \<and> k \<noteq> ''cam3'' \<longrightarrow>
             (\<exists>v. camera_status ?rg undecodable (answers JNull) k d = Inr v)"
    using c2 by auto
  note t = empty_polygons_empty_vector [OF d m p cam_nums(3),
      where requests_get = ?rg and save_snapshot = undecodable
        and hf_detect_objects = "answers JNull"]
  from t have 1: "camera_status ?rg undecodable (answers JNull) ''cam3'' ?d3 = Inr []"
    by blast
  from t o have "\<exists>st. run_status_check ?rg undecodable (answers JNull) ?cfg = Inr st \<and>
                dom st = fst ` set ?cfg \<and> st ''cam3'' = Some []"
    by blast
  with 1 show ?thesis by auto
qed

end
